theory Spec2Isabelle
  imports Complex_Main
begin

section \<open>Data model\<close>

text \<open>
  The tables of \<^verbatim>\<open>prisma/migrations/20251126054244_initial/migration.sql\<close>, one record
  per row type. Identifiers are the VARCHAR(36) keys (strings), an ISBN is the value of a
  JavaScript BigInt (an unbounded integer), and a DATETIME is the number of milliseconds of a
  JavaScript Date (the DATETIME(0) columns keep whole seconds; the examples use whole seconds
  and the rounding is not modelled). A rental row as the handlers build and read it may carry
  \<^verbatim>\<open>null\<close> in
  \<^verbatim>\<open>returned_date\<close>, so the field is optional in the row type; the table declares the
  column NOT NULL, and the persistence layer below refuses such a row and such a query.
  The \<^verbatim>\<open>createdAt\<close> and \<^verbatim>\<open>updatedAt\<close> columns of \<^verbatim>\<open>user\<close> are read by no handler
  and are left out.

  A handler is a function of what it reads from the request and of the store, and returns
  its answer, with the new store where it writes. A field that the body of a request does
  not have is \<open>None\<close>; where a handler's answer differs for a request without any
  body, the body itself is optional: Express 5, on which the throwing async middleware of
  \<^verbatim>\<open>app.ts\<close> relies, leaves \<^verbatim>\<open>req.body\<close> \<^verbatim>\<open>undefined\<close> there, and reading a field
  of it throws.
\<close>

type_synonym uuid = string
type_synonym bigint = int
type_synonym datetime = int

record user_row =
  u_id :: uuid
  u_email :: string
  u_name :: string
  u_password :: string
  u_is_admin :: bool
  u_isDeleted :: bool

record author_row =
  a_id :: uuid
  a_name :: string
  a_isDeleted :: bool

record publisher_row =
  p_id :: uuid
  p_name :: string
  p_isDeleted :: bool

record book_row =
  isbn :: bigint
  title :: string
  author_id :: uuid
  publisher_id :: uuid
  publication_year :: nat
  publication_month :: nat
  b_isDeleted :: bool

record rental_log_row =
  r_id :: uuid
  book_isbn :: bigint
  user_id :: uuid
  checkout_date :: datetime
  due_date :: datetime
  returned_date :: "datetime option"

record db =
  user_tbl :: "user_row list"
  author_tbl :: "author_row list"
  publisher_tbl :: "publisher_row list"
  book_tbl :: "book_row list"
  rental_log_tbl :: "rental_log_row list"

text \<open>
  The error taxonomy of the handlers, by the HTTP status each one answers with.
\<close>

datatype error =
  ValidationError | Unauthenticated | Forbidden | NotFound | Conflict | Internal

fun status :: "error \<Rightarrow> nat" where
  "status ValidationError = 400"
| "status Unauthenticated = 401"
| "status Forbidden = 403"
| "status NotFound = 404"
| "status Conflict = 409"
| "status Internal = 500"

section \<open>Persistence layer\<close>

text \<open>
  The Prisma calls the handlers make, over each table as the list of its rows in the order
  the database returns them.
  \<^verbatim>\<open>findUnique\<close> and \<^verbatim>\<open>findFirst\<close> return the first matching row or nothing;
  a call throws (here: returns \<open>None\<close>) when the client or the database refuses it.
\<close>

definition user_findUnique :: "uuid \<Rightarrow> db \<Rightarrow> user_row option" where
  "user_findUnique i d = find (\<lambda>u. u_id u = i) (user_tbl d)"

definition author_findUnique :: "uuid \<Rightarrow> db \<Rightarrow> author_row option" where
  "author_findUnique i d = find (\<lambda>a. a_id a = i) (author_tbl d)"

definition publisher_findUnique :: "uuid \<Rightarrow> db \<Rightarrow> publisher_row option" where
  "publisher_findUnique i d = find (\<lambda>p. p_id p = i) (publisher_tbl d)"

text \<open>
  An ISBN reaches the database as a signed 64-bit argument: a BigInt outside that range is
  refused. Inside the range the BIGINT UNSIGNED column is compared with it.
\<close>

definition int64 :: "bigint \<Rightarrow> bool" where
  "int64 i \<longleftrightarrow> - (2 ^ 63) \<le> i \<and> i < 2 ^ 63"

definition book_findUnique :: "bigint \<Rightarrow> db \<Rightarrow> book_row option option" where
  "book_findUnique i d =
     (if int64 i then Some (find (\<lambda>b. isbn b = i) (book_tbl d)) else None)"

definition rental_log_findUnique :: "uuid \<Rightarrow> db \<Rightarrow> rental_log_row option" where
  "rental_log_findUnique i d = find (\<lambda>r. r_id r = i) (rental_log_tbl d)"

text \<open>
  \<^verbatim>\<open>rental_log.findFirst({ where: { book_isbn, returned_date: { equals: v } } })\<close>.
  The column \<^verbatim>\<open>returned_date\<close> is \<^verbatim>\<open>DATETIME(0) NOT NULL\<close>, the client has the
  field as required (the handlers need \<^verbatim>\<open>null as any\<close> to get a \<^verbatim>\<open>null\<close> past its
  types), and it refuses a filter that compares the field with \<^verbatim>\<open>null\<close>.
\<close>

definition rental_log_findFirst ::
  "bigint \<Rightarrow> datetime option \<Rightarrow> db \<Rightarrow> rental_log_row option option" where
  "rental_log_findFirst i v d =
     (case v of
        None \<Rightarrow> None
      | Some t \<Rightarrow>
          Some (find (\<lambda>r. book_isbn r = i \<and> returned_date r = Some t) (rental_log_tbl d)))"

text \<open>
  \<^verbatim>\<open>rental_log.create\<close>. The table has \<^verbatim>\<open>returned_date DATETIME(0) NOT NULL\<close>,
  \<^verbatim>\<open>PRIMARY KEY (id)\<close> and \<^verbatim>\<open>UNIQUE INDEX rental_log_book_isbn_key(book_isbn)\<close>: a row
  without a return date and a row that repeats an id or an ISBN are refused, and the call
  throws.
\<close>

definition rental_log_create :: "rental_log_row \<Rightarrow> db \<Rightarrow> db option" where
  "rental_log_create row d =
     (if returned_date row = None then None
      else if list_ex (\<lambda>r. r_id r = r_id row) (rental_log_tbl d) then None
      else if list_ex (\<lambda>r. book_isbn r = book_isbn row) (rental_log_tbl d) then None
      else Some (d\<lparr>rental_log_tbl := rental_log_tbl d @ [row]\<rparr>))"

text \<open>
  \<^verbatim>\<open>rental_log.update({ where: { id }, data: { returned_date } })\<close>: throws when no row has
  the id, otherwise sets the column and returns the updated row.
\<close>

definition rental_log_update_returned ::
  "uuid \<Rightarrow> datetime \<Rightarrow> db \<Rightarrow> (rental_log_row \<times> db) option" where
  "rental_log_update_returned i t d =
     (case rental_log_findUnique i d of
        None \<Rightarrow> None
      | Some r \<Rightarrow>
          Some (r\<lparr>returned_date := Some t\<rparr>,
                d\<lparr>rental_log_tbl :=
                    map (\<lambda>x. if r_id x = i then x\<lparr>returned_date := Some t\<rparr> else x)
                      (rental_log_tbl d)\<rparr>))"

section \<open>Rendering helpers\<close>

text \<open>
  \<^verbatim>\<open>toString()\<close> of a BigInt and the decimal digits a template literal prints for a
  number.
\<close>

definition digit_char :: "nat \<Rightarrow> char" where
  "digit_char k = ''0123456789'' ! k"

fun digits10 :: "nat \<Rightarrow> string" where
  "digits10 n =
     (if n < 10 then [digit_char n] else digits10 (n div 10) @ [digit_char (n mod 10)])"

declare digits10.simps [simp del]

definition toString :: "bigint \<Rightarrow> string" where
  "toString i = (if i < 0 then CHR ''-'' # digits10 (nat (- i)) else digits10 (nat i))"

definition year_month :: "nat \<Rightarrow> nat \<Rightarrow> string" where
  "year_month y m = digits10 y @ ''.'' @ digits10 m"

text \<open>The placeholder names, as the UTF-8 bytes of the source's literals.\<close>

definition unknown_name :: string where
  "unknown_name = [CHR 0xE4, CHR 0xB8, CHR 0x8D, CHR 0xE6, CHR 0x98, CHR 0x8E]"

definition unknown_author :: string where
  "unknown_author = unknown_name @
     [CHR 0xE3, CHR 0x81, CHR 0xAA, CHR 0xE8, CHR 0x91, CHR 0x97, CHR 0xE8, CHR 0x80, CHR 0x85]"

section \<open>Catalog service\<close>

subsection \<open>GET /book/search/author and GET /book/search/publisher\<close>

text \<open>
  \<^verbatim>\<open>name: { contains: keyword }\<close> is the SQL test \<^verbatim>\<open>name LIKE '%keyword%'\<close> under the
  tables' collation \<^verbatim>\<open>utf8mb4_unicode_ci\<close>: the letters a-z equal A-Z (the collation's
  further equivalences between non-ASCII characters are not modelled), and a \<^verbatim>\<open>%\<close> or
  \<^verbatim>\<open>_\<close> in the keyword is a wildcard of the pattern like the two \<^verbatim>\<open>%\<close> around it
  (the escape character of LIKE is not modelled).
  \<^verbatim>\<open>select: { id: true, name: true }\<close> makes a result row a pair of id and name.
  The argument of the handlers is \<^verbatim>\<open>req.body\<close>: \<open>None\<close> for a request without a body,
  where \<^verbatim>\<open>req.body.keyword\<close> throws and the handler's \<^verbatim>\<open>catch\<close> answers 500, and
  otherwise the body's \<^verbatim>\<open>keyword\<close>, \<open>None\<close> when the body
  has no such field.
\<close>

definition fold_case :: "char \<Rightarrow> nat" where
  "fold_case c = (let k = of_char c in if 97 \<le> k \<and> k \<le> 122 then k - 32 else k)"

definition percent :: nat where
  "percent = 37"

definition underscore :: nat where
  "underscore = 95"

fun like :: "nat list \<Rightarrow> nat list \<Rightarrow> bool" where
  "like [] s = (s = [])"
| "like (p # ps) s =
     (if p = percent then
        (like ps s \<or> (case s of [] \<Rightarrow> False | c # cs \<Rightarrow> like (p # ps) cs))
      else if p = underscore then (case s of [] \<Rightarrow> False | c # cs \<Rightarrow> like ps cs)
      else (case s of [] \<Rightarrow> False | c # cs \<Rightarrow> c = p \<and> like ps cs))"

declare like.simps(2) [simp del]

definition name_contains :: "string \<Rightarrow> string \<Rightarrow> bool" where
  "name_contains name keyword =
     like ([percent] @ map fold_case keyword @ [percent]) (map fold_case name)"

definition author_findMany_search :: "string \<Rightarrow> db \<Rightarrow> (uuid \<times> string) list" where
  "author_findMany_search keyword d =
     map (\<lambda>a. (a_id a, a_name a))
       (filter (\<lambda>a. a_isDeleted a = False \<and> name_contains (a_name a) keyword) (author_tbl d))"

definition publisher_findMany_search :: "string \<Rightarrow> db \<Rightarrow> (uuid \<times> string) list" where
  "publisher_findMany_search keyword d =
     map (\<lambda>p. (p_id p, p_name p))
       (filter (\<lambda>p. p_isDeleted p = False \<and> name_contains (p_name p) keyword)
          (publisher_tbl d))"

text \<open>\<^verbatim>\<open>req.body.keyword || ''\<close>: a missing keyword and the empty string both give \<open>''''\<close>.\<close>

definition or_empty :: "string option \<Rightarrow> string" where
  "or_empty v = (case v of None \<Rightarrow> '''' | Some s \<Rightarrow> if s = '''' then '''' else s)"

definition searchAuthors :: "string option option \<Rightarrow> db \<Rightarrow> error + (uuid \<times> string) list" where
  "searchAuthors body d =
     (case body of
        None \<Rightarrow> Inl Internal
      | Some body_keyword \<Rightarrow>
          (let keyword = or_empty body_keyword in Inr (author_findMany_search keyword d)))"

definition searchPublishers ::
  "string option option \<Rightarrow> db \<Rightarrow> error + (uuid \<times> string) list" where
  "searchPublishers body d =
     (case body of
        None \<Rightarrow> Inl Internal
      | Some body_keyword \<Rightarrow>
          (let keyword = or_empty body_keyword in Inr (publisher_findMany_search keyword d)))"

subsection \<open>GET /book/list/:page and GET /book/list\<close>

text \<open>
  What \<^verbatim>\<open>parseInt(pageParam, 10)\<close> can return: \<^verbatim>\<open>NaN\<close>, an integer, or an infinity
  for a digit string beyond the range of a double. The comparisons are JavaScript's: every
  comparison with \<^verbatim>\<open>NaN\<close> is false.
\<close>

datatype jsnum = NaN | NegInfinity | Finite int | Infinity

definition ITEMS_PER_PAGE :: nat where
  "ITEMS_PER_PAGE = 5"

fun isNaN :: "jsnum \<Rightarrow> bool" where
  "isNaN NaN = True"
| "isNaN _ = False"

fun js_less :: "jsnum \<Rightarrow> int \<Rightarrow> bool" where
  "js_less NaN k = False"
| "js_less NegInfinity k = True"
| "js_less (Finite n) k = (n < k)"
| "js_less Infinity k = False"

fun js_greater :: "jsnum \<Rightarrow> int \<Rightarrow> bool" where
  "js_greater NaN k = False"
| "js_greater NegInfinity k = False"
| "js_greater (Finite n) k = (n > k)"
| "js_greater Infinity k = True"

text \<open>\<^verbatim>\<open>prisma.book.count({ where: { isDeleted: false } })\<close>\<close>

definition book_count :: "db \<Rightarrow> nat" where
  "book_count d = length (filter (\<lambda>b. \<not> b_isDeleted b) (book_tbl d))"

text \<open>
  \<^verbatim>\<open>orderBy: [{ publication_year: 'desc' }, { publication_month: 'desc' }]\<close>, as an
  insertion sort that keeps rows of equal year and month in table order.
\<close>

definition listed_before :: "book_row \<Rightarrow> book_row \<Rightarrow> bool" where
  "listed_before a b \<longleftrightarrow>
     publication_year a > publication_year b
     \<or> (publication_year a = publication_year b \<and> publication_month a > publication_month b)"

fun insert_listed :: "book_row \<Rightarrow> book_row list \<Rightarrow> book_row list" where
  "insert_listed b [] = [b]"
| "insert_listed b (c # cs) = (if listed_before c b then c # insert_listed b cs else b # c # cs)"

definition orderBy_year_month_desc :: "book_row list \<Rightarrow> book_row list" where
  "orderBy_year_month_desc bs = foldr insert_listed bs []"

text \<open>
  \<^verbatim>\<open>skip: (currentPage - 1) * ITEMS_PER_PAGE\<close>, and the \<^verbatim>\<open>findMany\<close> with
  \<^verbatim>\<open>take\<close> and \<^verbatim>\<open>skip\<close>, which throws for a \<^verbatim>\<open>skip\<close> that is not a
  non-negative integer.
\<close>

fun page_skip :: "jsnum \<Rightarrow> jsnum" where
  "page_skip (Finite n) = Finite ((n - 1) * int ITEMS_PER_PAGE)"
| "page_skip x = x"

definition book_findMany_page :: "nat \<Rightarrow> jsnum \<Rightarrow> db \<Rightarrow> book_row list option" where
  "book_findMany_page tk sk d =
     (case sk of
        Finite s \<Rightarrow>
          if s < 0 then None
          else Some (take tk (drop (nat s)
                 (orderBy_year_month_desc (filter (\<lambda>b. \<not> b_isDeleted b) (book_tbl d)))))
      | _ \<Rightarrow> None)"

record list_item =
  li_isbn :: string
  li_title :: string
  li_author_name :: string
  li_publication_year_month :: string

record list_response =
  current :: jsnum
  last_page :: int
  books :: "list_item list"

definition list_item_of :: "db \<Rightarrow> book_row \<Rightarrow> list_item" where
  "list_item_of d book =
     (let author = author_findUnique (author_id book) d
      in \<lparr>li_isbn = toString (isbn book),
          li_title = title book,
          li_author_name = (case author of Some a \<Rightarrow> a_name a | None \<Rightarrow> unknown_author),
          li_publication_year_month =
            year_month (publication_year book) (publication_month book)\<rparr>)"

text \<open>\<^verbatim>\<open>Math.ceil(totalCount / ITEMS_PER_PAGE) || 1\<close>\<close>

definition lastPage_of :: "nat \<Rightarrow> int" where
  "lastPage_of totalCount =
     (let c = \<lceil>real totalCount / real ITEMS_PER_PAGE\<rceil> in if c = 0 then 1 else c)"

text \<open>
  The handler. Its argument is \<open>None\<close> for the route without a page segment (where
  \<^verbatim>\<open>req.params.page || '1'\<close> gives page 1) and otherwise what \<^verbatim>\<open>parseInt\<close> returns
  for the segment. The result is the object handed to \<^verbatim>\<open>res.format\<close>; a throwing query
  goes to \<^verbatim>\<open>next(error)\<close>.
\<close>

definition handleListRequest :: "jsnum option \<Rightarrow> db \<Rightarrow> error + list_response" where
  "handleListRequest page d =
     (let currentPage = (case page of None \<Rightarrow> Finite 1 | Some n \<Rightarrow> n);
          currentPage = (if isNaN currentPage \<or> js_less currentPage 1 then Finite 1 else currentPage);
          totalCount = book_count d;
          lastPage = lastPage_of totalCount;
          currentPage = (if js_greater currentPage lastPage then Finite lastPage else currentPage)
      in case book_findMany_page ITEMS_PER_PAGE (page_skip currentPage) d of
           None \<Rightarrow> Inl Internal
         | Some booksRaw \<Rightarrow>
             Inr \<lparr>current = currentPage, last_page = lastPage,
                  books = map (list_item_of d) booksRaw\<rparr>)"

subsection \<open>GET /book/detail/:isbn\<close>

text \<open>
  The argument is the outcome of \<^verbatim>\<open>BigInt(req.params.isbn)\<close>. The handler's two own
  failures carry \<^verbatim>\<open>err.status = 404\<close>; a query that throws goes to \<^verbatim>\<open>next(error)\<close>
  without a status, and the error handler of \<^verbatim>\<open>app.ts\<close> answers 500. The result is the
  object handed to \<^verbatim>\<open>res.format\<close>.
\<close>

record book_detail =
  d_isbn :: string
  d_title :: string
  d_author_name :: string
  d_publisher_name :: string
  d_publication_year_month :: string
  is_rental :: bool

definition getBookDetail :: "bigint option \<Rightarrow> db \<Rightarrow> error + book_detail" where
  "getBookDetail isbnParam d =
     (case isbnParam of
        None \<Rightarrow> Inl NotFound
      | Some i \<Rightarrow>
          (case book_findUnique i d of
             None \<Rightarrow> Inl Internal
           | Some None \<Rightarrow> Inl NotFound
           | Some (Some book) \<Rightarrow>
               (let author = author_findUnique (author_id book) d;
                    publisher = publisher_findUnique (publisher_id book) d
                in case rental_log_findFirst i None d of
                     None \<Rightarrow> Inl Internal
                   | Some activeRental \<Rightarrow>
                       Inr \<lparr>d_isbn = toString (isbn book),
                            d_title = title book,
                            d_author_name =
                              (case author of Some a \<Rightarrow> a_name a | None \<Rightarrow> unknown_name),
                            d_publisher_name =
                              (case publisher of Some p \<Rightarrow> p_name p | None \<Rightarrow> unknown_name),
                            d_publication_year_month =
                              year_month (publication_year book) (publication_month book),
                            is_rental = (activeRental \<noteq> None)\<rparr>)))"

section \<open>Rental service\<close>

subsection \<open>POST /book/rental\<close>

text \<open>
  The request as the handler reads it: \<^verbatim>\<open>req.user\<close> by its id (absent when nobody is
  logged in) and the body: \<open>None\<close> for a request without a body, where reading
  \<^verbatim>\<open>req.body.book_id\<close> throws into the outer \<^verbatim>\<open>catch\<close>, and otherwise the outcome of
  \<^verbatim>\<open>BigInt(req.body.book_id)\<close> (\<open>None\<close> when it throws, which the inner \<^verbatim>\<open>catch\<close>
  answers with 400). Every query or insert that throws ends in the outer \<^verbatim>\<open>catch\<close>, 500.
  The handler reads the clock twice, \<^verbatim>\<open>const now = new Date()\<close> and
  \<^verbatim>\<open>const dueDate = new Date()\<close>, and Prisma draws the id of the new row: the three
  values are the environment of the call. \<^verbatim>\<open>setDate(getDate() + 7)\<close> moves a date by
  seven days of 86400000 ms (a local time zone without clock changes, as Asia/Tokyo).
\<close>

record rental_request =
  req_user :: "uuid option"
  book_id :: "bigint option option"

record rental_env =
  clock1 :: datetime
  clock2 :: datetime
  new_uuid :: uuid

record rental_receipt =
  rc_id :: uuid
  rc_checkout_date :: datetime
  rc_due_date :: datetime

definition day_ms :: int where
  "day_ms = 86400000"

definition checkout :: "rental_env \<Rightarrow> rental_request \<Rightarrow> db \<Rightarrow> (error + rental_receipt) \<times> db" where
  "checkout env req d =
     (case req_user req of
        None \<Rightarrow> (Inl Unauthenticated, d)
      | Some uid \<Rightarrow>
          (case book_id req of
             None \<Rightarrow> (Inl Internal, d)
           | Some None \<Rightarrow> (Inl ValidationError, d)
           | Some (Some i) \<Rightarrow>
               (case book_findUnique i d of
                  None \<Rightarrow> (Inl Internal, d)
                | Some None \<Rightarrow> (Inl NotFound, d)
                | Some (Some book) \<Rightarrow>
                    (case rental_log_findFirst i None d of
                       None \<Rightarrow> (Inl Internal, d)
                     | Some (Some rental) \<Rightarrow> (Inl Conflict, d)
                     | Some None \<Rightarrow>
                         (let now = clock1 env;
                              dueDate = clock2 env + 7 * day_ms;
                              newRental = \<lparr>r_id = new_uuid env, book_isbn = i, user_id = uid,
                                           checkout_date = now, due_date = dueDate,
                                           returned_date = None\<rparr>
                          in case rental_log_create newRental d of
                               None \<Rightarrow> (Inl Internal, d)
                             | Some d' \<Rightarrow>
                                 (Inr \<lparr>rc_id = r_id newRental,
                                       rc_checkout_date = checkout_date newRental,
                                       rc_due_date = due_date newRental\<rparr>, d'))))))"

subsection \<open>PUT /users/return\<close>

text \<open>
  \<^verbatim>\<open>req.body.id\<close> is \<open>None\<close> when the body carries no string id: Prisma then rejects the
  \<^verbatim>\<open>findUnique\<close> query and the handler's \<^verbatim>\<open>catch\<close> answers 500. The clock is read once.
\<close>

record return_request =
  rt_user :: "uuid option"
  rt_id :: "uuid option"

record return_receipt =
  rr_id :: uuid
  rr_returned_date :: "datetime option"

definition returnBook :: "datetime \<Rightarrow> return_request \<Rightarrow> db \<Rightarrow> (error + return_receipt) \<times> db" where
  "returnBook now req d =
     (case rt_user req of
        None \<Rightarrow> (Inl Unauthenticated, d)
      | Some uid \<Rightarrow>
          (case rt_id req of
             None \<Rightarrow> (Inl Internal, d)
           | Some rentalId \<Rightarrow>
               (case rental_log_findUnique rentalId d of
                  None \<Rightarrow> (Inl NotFound, d)
                | Some rental \<Rightarrow>
                    if user_id rental \<noteq> uid then (Inl Forbidden, d)
                    else
                      (case rental_log_update_returned rentalId now d of
                         None \<Rightarrow> (Inl Internal, d)
                       | Some (updatedRental, d') \<Rightarrow>
                           (Inr \<lparr>rr_id = r_id updatedRental,
                                 rr_returned_date = returned_date updatedRental\<rparr>, d')))))"

section \<open>Directory admin service\<close>

subsection \<open>Content negotiation\<close>

text \<open>
  What the request's Accept header admits among HTML and JSON, and which of the two
  \<^verbatim>\<open>res.format({ html, json })\<close> serves when both are admitted. With neither,
  \<^verbatim>\<open>res.format\<close> answers 406. A reply is kept by its status line (a JSON status, a
  redirect, or a rendered view); bodies and messages are left out.
\<close>

datatype accept = HtmlOnly | JsonOnly | HtmlFirst | JsonFirst | Neither

fun accepts_html :: "accept \<Rightarrow> bool" where
  "accepts_html JsonOnly = False"
| "accepts_html Neither = False"
| "accepts_html _ = True"

fun accepts_json :: "accept \<Rightarrow> bool" where
  "accepts_json HtmlOnly = False"
| "accepts_json Neither = False"
| "accepts_json _ = True"

datatype reply = Status nat | Redirect string | Render string

fun res_format :: "accept \<Rightarrow> reply \<Rightarrow> reply \<Rightarrow> reply" where
  "res_format HtmlOnly html json = html"
| "res_format HtmlFirst html json = html"
| "res_format JsonOnly html json = json"
| "res_format JsonFirst html json = json"
| "res_format Neither html json = Status 406"

subsection \<open>requireAdmin\<close>

text \<open>
  The middleware in front of every admin route. \<open>session_user\<close> is \<^verbatim>\<open>req.user.id\<close>,
  \<open>None\<close> when there is no \<^verbatim>\<open>req.user\<close> or it has no id; an empty id is falsy as well.
  The user row is read again from the database and only its \<^verbatim>\<open>is_admin\<close> column is
  looked at. Both refusals answer 403 to a caller that accepts JSON and not HTML and
  redirect to \<^verbatim>\<open>/\<close> otherwise.
\<close>

record admin_request =
  session_user :: "uuid option"
  accept :: accept

datatype middleware = Next | Reply reply

definition refuse :: "admin_request \<Rightarrow> middleware" where
  "refuse req =
     (if accepts_json (accept req) \<and> \<not> accepts_html (accept req) then Reply (Status 403)
      else Reply (Redirect ''/''))"

definition requireAdmin :: "admin_request \<Rightarrow> db \<Rightarrow> middleware" where
  "requireAdmin req d =
     (case session_user req of
        None \<Rightarrow> refuse req
      | Some uid \<Rightarrow>
          if uid = '''' then refuse req
          else
            (let currentUser = user_findUnique uid d;
                 isAdmin = (case currentUser of None \<Rightarrow> False | Some u \<Rightarrow> u_is_admin u = True)
             in if \<not> isAdmin then refuse req else Next))"

subsection \<open>Writes of the admin handlers\<close>

text \<open>
  \<^verbatim>\<open>create\<close> throws on a repeated primary key (or ISBN, for
  \<^verbatim>\<open>UNIQUE INDEX book_isbn_key\<close>); \<^verbatim>\<open>update\<close> throws when the key is missing from the
  request or matches no row; both throw for an ISBN outside the signed 64-bit range.
  A field the request leaves undefined keeps its value.
  \<^verbatim>\<open>parseInt\<close> of a year or month must give a non-negative integer for the UNSIGNED
  columns; lengths and upper bounds of columns are not modelled.
\<close>

definition author_create :: "uuid \<Rightarrow> string \<Rightarrow> db \<Rightarrow> db option" where
  "author_create i n d =
     (if list_ex (\<lambda>a. a_id a = i) (author_tbl d) then None
      else Some (d\<lparr>author_tbl := author_tbl d @ [\<lparr>a_id = i, a_name = n, a_isDeleted = False\<rparr>]\<rparr>))"

definition author_update :: "uuid option \<Rightarrow> (author_row \<Rightarrow> author_row) \<Rightarrow> db \<Rightarrow> db option" where
  "author_update i f d =
     (case i of
        None \<Rightarrow> None
      | Some k \<Rightarrow>
          if list_ex (\<lambda>a. a_id a = k) (author_tbl d)
          then Some (d\<lparr>author_tbl := map (\<lambda>a. if a_id a = k then f a else a) (author_tbl d)\<rparr>)
          else None)"

definition publisher_create :: "uuid \<Rightarrow> string \<Rightarrow> db \<Rightarrow> db option" where
  "publisher_create i n d =
     (if list_ex (\<lambda>p. p_id p = i) (publisher_tbl d) then None
      else Some (d\<lparr>publisher_tbl :=
                    publisher_tbl d @ [\<lparr>p_id = i, p_name = n, p_isDeleted = False\<rparr>]\<rparr>))"

definition publisher_update ::
  "uuid option \<Rightarrow> (publisher_row \<Rightarrow> publisher_row) \<Rightarrow> db \<Rightarrow> db option" where
  "publisher_update i f d =
     (case i of
        None \<Rightarrow> None
      | Some k \<Rightarrow>
          if list_ex (\<lambda>p. p_id p = k) (publisher_tbl d)
          then Some (d\<lparr>publisher_tbl :=
                        map (\<lambda>p. if p_id p = k then f p else p) (publisher_tbl d)\<rparr>)
          else None)"

definition book_create :: "book_row \<Rightarrow> db \<Rightarrow> db option" where
  "book_create row d =
     (if int64 (isbn row) then
        (if list_ex (\<lambda>b. isbn b = isbn row) (book_tbl d) then None
         else Some (d\<lparr>book_tbl := book_tbl d @ [row]\<rparr>))
      else None)"

definition book_update :: "bigint \<Rightarrow> (book_row \<Rightarrow> book_row) \<Rightarrow> db \<Rightarrow> db option" where
  "book_update i f d =
     (if int64 i \<and> list_ex (\<lambda>b. isbn b = i) (book_tbl d)
      then Some (d\<lparr>book_tbl := map (\<lambda>b. if isbn b = i then f b else b) (book_tbl d)\<rparr>)
      else None)"

fun unsigned_column :: "jsnum \<Rightarrow> nat option" where
  "unsigned_column (Finite n) = (if n < 0 then None else Some (nat n))"
| "unsigned_column _ = None"

definition set_opt :: "'a option \<Rightarrow> 'a \<Rightarrow> 'a" where
  "set_opt v old = (case v of None \<Rightarrow> old | Some x \<Rightarrow> x)"

subsection \<open>The twelve admin operations\<close>

text \<open>
  The body of a book request: \<open>f_isbn_falsy\<close> is the test \<^verbatim>\<open>!isbn\<close> (true for a
  missing field, the empty string and the number 0), \<open>f_isbn\<close> is the outcome of
  \<^verbatim>\<open>BigInt(isbn)\<close> (\<open>None\<close> when the conversion throws), the year and the month are
  what \<^verbatim>\<open>parseInt\<close> returns. The first argument of the handler is the id Prisma draws
  for a created row.
\<close>

record book_form =
  f_isbn_falsy :: bool
  f_isbn :: "bigint option"
  f_title :: "string option"
  f_author_id :: "uuid option"
  f_publisher_id :: "uuid option"
  f_publication_year :: jsnum
  f_publication_month :: jsnum

datatype admin_op =
    AuthorList
  | AuthorCreate "string option"
  | AuthorUpdate "uuid option" "string option"
  | AuthorDelete "uuid option"
  | PublisherList
  | PublisherCreate "string option"
  | PublisherUpdate "uuid option" "string option"
  | PublisherDelete "uuid option"
  | BookList
  | BookCreate book_form
  | BookUpdate book_form
  | BookDelete "bigint option"

fun admin_handler :: "uuid \<Rightarrow> admin_op \<Rightarrow> admin_request \<Rightarrow> db \<Rightarrow> reply \<times> db" where
  "admin_handler fresh AuthorList req d =
     (res_format (accept req) (Render ''admin/author'') (Status 200), d)"
| "admin_handler fresh (AuthorCreate name) req d =
     (case (case name of
              None \<Rightarrow> None
            | Some n \<Rightarrow> if n = '''' then None else author_create fresh n d) of
        None \<Rightarrow> (res_format (accept req) (Redirect ''/admin/author?error=failed'') (Status 400), d)
      | Some d' \<Rightarrow> (res_format (accept req) (Redirect ''/admin/author'') (Status 200), d'))"
| "admin_handler fresh (AuthorUpdate i name) req d =
     (case author_update i (\<lambda>a. a\<lparr>a_name := set_opt name (a_name a)\<rparr>) d of
        None \<Rightarrow> (Status 400, d)
      | Some d' \<Rightarrow> (Status 200, d'))"
| "admin_handler fresh (AuthorDelete i) req d =
     (case author_update i (\<lambda>a. a\<lparr>a_isDeleted := True\<rparr>) d of
        None \<Rightarrow> (Status 400, d)
      | Some d' \<Rightarrow> (Status 200, d'))"
| "admin_handler fresh PublisherList req d =
     (res_format (accept req) (Render ''admin/publisher'') (Status 200), d)"
| "admin_handler fresh (PublisherCreate name) req d =
     (case (case name of
              None \<Rightarrow> None
            | Some n \<Rightarrow> if n = '''' then None else publisher_create fresh n d) of
        None \<Rightarrow>
          (res_format (accept req) (Redirect ''/admin/publisher?error=failed'') (Status 400), d)
      | Some d' \<Rightarrow> (res_format (accept req) (Redirect ''/admin/publisher'') (Status 200), d'))"
| "admin_handler fresh (PublisherUpdate i name) req d =
     (case publisher_update i (\<lambda>p. p\<lparr>p_name := set_opt name (p_name p)\<rparr>) d of
        None \<Rightarrow> (Status 400, d)
      | Some d' \<Rightarrow> (Status 200, d'))"
| "admin_handler fresh (PublisherDelete i) req d =
     (case publisher_update i (\<lambda>p. p\<lparr>p_isDeleted := True\<rparr>) d of
        None \<Rightarrow> (Status 400, d)
      | Some d' \<Rightarrow> (Status 200, d'))"
| "admin_handler fresh BookList req d =
     (res_format (accept req) (Render ''admin/book'') (Status 200), d)"
| "admin_handler fresh (BookCreate f) req d =
     (let failed = (res_format (accept req) (Redirect ''/admin/book?error=failed'') (Status 400), d)
      in if f_isbn_falsy f then failed
         else
           (case (f_title f, f_isbn f) of
              (Some t, Some isbnBig) \<Rightarrow>
                if t = '''' then failed
                else
                  (case book_findUnique isbnBig d of
                     None \<Rightarrow> failed
                   | Some exists \<Rightarrow>
                       if (case exists of None \<Rightarrow> False | Some e \<Rightarrow> \<not> b_isDeleted e)
                       then failed
                       else
                         (case (f_author_id f, f_publisher_id f,
                                unsigned_column (f_publication_year f),
                                unsigned_column (f_publication_month f)) of
                            (Some a, Some p, Some y, Some m) \<Rightarrow>
                              (case book_create \<lparr>isbn = isbnBig, title = t, author_id = a,
                                      publisher_id = p, publication_year = y,
                                      publication_month = m, b_isDeleted = False\<rparr> d of
                                 None \<Rightarrow> failed
                               | Some d' \<Rightarrow>
                                   (res_format (accept req) (Redirect ''/admin/book'')
                                      (Status 200), d'))
                          | _ \<Rightarrow> failed))
            | _ \<Rightarrow> failed))"
| "admin_handler fresh (BookUpdate f) req d =
     (case (f_isbn f, unsigned_column (f_publication_year f),
            unsigned_column (f_publication_month f)) of
        (Some isbnBig, Some y, Some m) \<Rightarrow>
          (case book_update isbnBig
                  (\<lambda>b. b\<lparr>title := set_opt (f_title f) (title b),
                          author_id := set_opt (f_author_id f) (author_id b),
                          publisher_id := set_opt (f_publisher_id f) (publisher_id b),
                          publication_year := y, publication_month := m\<rparr>) d of
             None \<Rightarrow> (Status 400, d)
           | Some d' \<Rightarrow> (Status 200, d'))
      | _ \<Rightarrow> (Status 400, d))"
| "admin_handler fresh (BookDelete i) req d =
     (case i of
        None \<Rightarrow> (Status 400, d)
      | Some isbnBig \<Rightarrow>
          (case book_update isbnBig (\<lambda>b. b\<lparr>b_isDeleted := True\<rparr>) d of
             None \<Rightarrow> (Status 400, d)
           | Some d' \<Rightarrow> (Status 200, d')))"

text \<open>
  \<^verbatim>\<open>router.METHOD(path, requireAdmin, handler)\<close>: the handler runs only when the
  middleware calls \<^verbatim>\<open>next()\<close>.
\<close>

definition admin_route :: "uuid \<Rightarrow> admin_op \<Rightarrow> admin_request \<Rightarrow> db \<Rightarrow> reply \<times> db" where
  "admin_route fresh op req d =
     (case requireAdmin req d of
        Reply r \<Rightarrow> (r, d)
      | Next \<Rightarrow> admin_handler fresh op req d)"

section \<open>Example states\<close>

text \<open>
  A small library: two users, one author, one publisher and the book with ISBN
  9780000000001. In \<open>store_deleted\<close> an administrator has soft-deleted the book.
  \<open>rental1\<close> is the row the checkout handler builds for user A, with \<open>returned_date\<close>
  null. In \<open>store2\<close> the rental table holds A's rental of the book with a return date,
  and \<open>store3\<close> is \<open>store2\<close> after A has returned the rental once more; \<open>rental2\<close>
  is a later rental of the same book by user B, complete with its return date.
\<close>

definition book1 :: book_row where
  "book1 = \<lparr>isbn = 9780000000001, title = ''Kokoro'', author_id = ''a1'', publisher_id = ''p1'',
             publication_year = 1914, publication_month = 9, b_isDeleted = False\<rparr>"

definition store0 :: db where
  "store0 = \<lparr>user_tbl =
               [\<lparr>u_id = ''A'', u_email = ''a@example.com'', u_name = ''Aoi'', u_password = ''#'',
                 u_is_admin = False, u_isDeleted = False\<rparr>,
                \<lparr>u_id = ''B'', u_email = ''b@example.com'', u_name = ''Ben'', u_password = ''#'',
                 u_is_admin = False, u_isDeleted = False\<rparr>],
             author_tbl = [\<lparr>a_id = ''a1'', a_name = ''Soseki'', a_isDeleted = False\<rparr>],
             publisher_tbl = [\<lparr>p_id = ''p1'', p_name = ''Iwanami'', p_isDeleted = False\<rparr>],
             book_tbl = [book1],
             rental_log_tbl = []\<rparr>"

definition store_deleted :: db where
  "store_deleted = store0\<lparr>book_tbl := [book1\<lparr>b_isDeleted := True\<rparr>]\<rparr>"

definition rental1 :: rental_log_row where
  "rental1 = \<lparr>r_id = ''r1'', book_isbn = 9780000000001, user_id = ''A'',
               checkout_date = 1764136964000, due_date = 1764741764000, returned_date = None\<rparr>"

definition store2 :: db where
  "store2 = store0\<lparr>rental_log_tbl := [rental1\<lparr>returned_date := Some 1764223364000\<rparr>]\<rparr>"

definition store3 :: db where
  "store3 = store0\<lparr>rental_log_tbl := [rental1\<lparr>returned_date := Some 1764309764000\<rparr>]\<rparr>"

definition rental2 :: rental_log_row where
  "rental2 = \<lparr>r_id = ''r2'', book_isbn = 9780000000001, user_id = ''B'',
               checkout_date = 1764396164000, due_date = 1765000964000,
               returned_date = Some 1764482564000\<rparr>"

definition envA :: rental_env where
  "envA = \<lparr>clock1 = 1764136964000, clock2 = 1764136964000, new_uuid = ''r1''\<rparr>"

definition reqA :: rental_request where
  "reqA = \<lparr>req_user = Some ''A'', book_id = Some (Some 9780000000001)\<rparr>"

definition envB :: rental_env where
  "envB = \<lparr>clock1 = 1764396164000, clock2 = 1764396164000, new_uuid = ''r2''\<rparr>"

definition reqB :: rental_request where
  "reqB = \<lparr>req_user = Some ''B'', book_id = Some (Some 9780000000001)\<rparr>"

definition returnA :: return_request where
  "returnA = \<lparr>rt_user = Some ''A'', rt_id = Some ''r1''\<rparr>"

text \<open>
  \<open>store12\<close> holds twelve listed books, published 2001 to 2012, and one soft-deleted
  book; \<open>store_search\<close> adds a soft-deleted author and publisher; in \<open>store_admins\<close>
  user A is no administrator, Y is one, and Z is an administrator whose row is soft-deleted.
\<close>

definition sample_book :: "nat \<Rightarrow> book_row" where
  "sample_book k = \<lparr>isbn = 9780000000000 + int k, title = ''Volume'', author_id = ''a1'',
                     publisher_id = ''p1'', publication_year = 2000 + k, publication_month = 4,
                     b_isDeleted = False\<rparr>"

definition store12 :: db where
  "store12 = store0\<lparr>book_tbl :=
     map sample_book [1, 2, 3, 4, 5, 6, 7, 8, 9, 10, 11, 12]
       @ [(sample_book 13)\<lparr>b_isDeleted := True\<rparr>]\<rparr>"

definition store_search :: db where
  "store_search = store0\<lparr>
     author_tbl := [\<lparr>a_id = ''a1'', a_name = ''Soseki'', a_isDeleted = False\<rparr>,
                    \<lparr>a_id = ''a2'', a_name = ''Ogai'', a_isDeleted = True\<rparr>],
     publisher_tbl := [\<lparr>p_id = ''p1'', p_name = ''Iwanami'', p_isDeleted = False\<rparr>,
                       \<lparr>p_id = ''p2'', p_name = ''Shinchosha'', p_isDeleted = True\<rparr>]\<rparr>"

definition store_admins :: db where
  "store_admins = store0\<lparr>user_tbl :=
      [\<lparr>u_id = ''A'', u_email = ''a@example.com'', u_name = ''Aoi'', u_password = ''#'',
        u_is_admin = False, u_isDeleted = False\<rparr>,
       \<lparr>u_id = ''Y'', u_email = ''y@example.com'', u_name = ''Yui'', u_password = ''#'',
        u_is_admin = True, u_isDeleted = False\<rparr>,
       \<lparr>u_id = ''Z'', u_email = ''z@example.com'', u_name = ''Zen'', u_password = ''#'',
        u_is_admin = True, u_isDeleted = True\<rparr>]\<rparr>"

definition store_admins_a1_deleted :: db where
  "store_admins_a1_deleted =
     store_admins\<lparr>author_tbl := [\<lparr>a_id = ''a1'', a_name = ''Soseki'', a_isDeleted = True\<rparr>]\<rparr>"

section \<open>Lookups in a list of rows\<close>

lemma find_update_by_id:
  "find (\<lambda>r. r_id r = i) (map (\<lambda>x. if r_id x = i then x\<lparr>returned_date := Some t\<rparr> else x) xs)
     = map_option (\<lambda>x. x\<lparr>returned_date := Some t\<rparr>) (find (\<lambda>r. r_id r = i) xs)"
  by (induction xs) simp_all

lemma rental_log_findUnique_id:
  "rental_log_findUnique i d = Some r \<Longrightarrow> r_id r = i"
  unfolding rental_log_findUnique_def by (auto dest: find_Some_iff[THEN iffD1])

section \<open>The rental workflow on the table as migrated\<close>

text \<open>
  The handlers mark an open rental by \<^verbatim>\<open>returned_date = null\<close>: the checkout searches
  for such a row and inserts one, the detail page searches for one. The table has the
  column NOT NULL, so the search is refused whatever the table holds, and so is the row
  the checkout builds.
\<close>

lemma rental_log_findFirst_null: "rental_log_findFirst i None d = None"
  by (simp add: rental_log_findFirst_def)


text \<open>
  What is left of the detail page: 404 for an ISBN that does not parse or has no row, and
  500 for every ISBN that has a row or is out of range. It never renders.
\<close>

lemma getBookDetail_cases:
  "getBookDetail p d =
     (case p of
        None \<Rightarrow> Inl NotFound
      | Some i \<Rightarrow>
          (case book_findUnique i d of
             None \<Rightarrow> Inl Internal
           | Some None \<Rightarrow> Inl NotFound
           | Some (Some book) \<Rightarrow> Inl Internal))"
  by (simp add: getBookDetail_def rental_log_findFirst_null Let_def split: option.splits)

lemma getBookDetail_never_renders: "getBookDetail p d \<noteq> Inr det"
  by (simp add: getBookDetail_cases split: option.splits)

text \<open>
  What is left of the checkout: it answers 401, 400, 404 or 500 and never writes. It never
  succeeds and never answers 409.
\<close>

lemma checkout_cases:
  "checkout env req d =
     ((case req_user req of
         None \<Rightarrow> Inl Unauthenticated
       | Some uid \<Rightarrow>
           (case book_id req of
              None \<Rightarrow> Inl Internal
            | Some None \<Rightarrow> Inl ValidationError
            | Some (Some i) \<Rightarrow>
                (case book_findUnique i d of
                   None \<Rightarrow> Inl Internal
                 | Some None \<Rightarrow> Inl NotFound
                 | Some (Some book) \<Rightarrow> Inl Internal))), d)"
  by (simp add: checkout_def rental_log_findFirst_null split: option.splits)

lemma checkout_never_succeeds: "checkout env req d \<noteq> (Inr rc, d')"
  by (simp add: checkout_cases split: option.splits)

lemma checkout_never_Conflict: "checkout env req d \<noteq> (Inl Conflict, d')"
  by (simp add: checkout_cases split: option.splits)

lemma checkout_keeps_store: "checkout env req d = (res, d') \<Longrightarrow> d' = d"
  by (simp add: checkout_cases)

text \<open>
  A book whose row is absent, with an ISBN in the signed 64-bit range: both the detail page
  and the checkout answer 404, and the checkout leaves the store as it was. Beyond the range
  the lookup itself is refused: 500.
\<close>

lemma absent_book_NotFound:
  assumes "book_findUnique i d = Some None"
  shows "getBookDetail (Some i) d = Inl NotFound"
    and "req_user req \<noteq> None \<Longrightarrow> book_id req = Some (Some i)
           \<Longrightarrow> checkout env req d = (Inl NotFound, d)"
  using assms by (auto simp add: getBookDetail_cases checkout_cases)

lemma absent_book_out_of_range:
  "getBookDetail (Some 9223372036854775808) store0 = Inl Internal
   \<and> checkout envA \<lparr>req_user = Some ''A'', book_id = Some (Some 9223372036854775808)\<rparr> store0
       = (Inl Internal, store0)"
  by (simp add: getBookDetail_cases checkout_cases book_findUnique_def int64_def)

text \<open>A book whose row is present, soft-deleted or not: both answer 500.\<close>

lemma present_book_Internal:
  assumes "book_findUnique i d = Some (Some book)"
  shows "getBookDetail (Some i) d = Inl Internal"
    and "req_user req \<noteq> None \<Longrightarrow> book_id req = Some (Some i)
           \<Longrightarrow> checkout env req d = (Inl Internal, d)"
  using assms by (auto simp add: getBookDetail_cases checkout_cases)

lemma book1_in_store0: "book_findUnique 9780000000001 store0 = Some (Some book1)"
  by (simp add: book_findUnique_def int64_def store0_def book1_def)

lemma book1_in_store_deleted:
  "book_findUnique 9780000000001 store_deleted = Some (Some (book1\<lparr>b_isDeleted := True\<rparr>))"
  by (simp add: book_findUnique_def int64_def store_deleted_def store0_def book1_def)

lemma book1_in_store2: "book_findUnique 9780000000001 store2 = Some (Some book1)"
  by (simp add: book_findUnique_def int64_def store2_def store0_def book1_def)

lemma book1_in_store3: "book_findUnique 9780000000001 store3 = Some (Some book1)"
  by (simp add: book_findUnique_def int64_def store3_def store0_def book1_def)

section \<open>Claims about the rental service\<close>

text \<open>
  C1. The claim: for an ISBN whose book row is absent or soft-deleted, the detail page and
  the checkout both answer NotFound and no rental row is created. Both handlers look the book
  up with \<^verbatim>\<open>findUnique({ where: { isbn } })\<close> and never read \<^verbatim>\<open>isDeleted\<close>: for the
  soft-deleted book of \<open>store_deleted\<close> neither stops with 404; both go on to the query
  for an open rental and answer 500.
\<close>

theorem soft_deleted_book_not_NotFound:
  "getBookDetail (Some 9780000000001) store_deleted = Inl Internal
   \<and> getBookDetail (Some 9780000000001) store_deleted \<noteq> Inl NotFound
   \<and> checkout envA reqA store_deleted = (Inl Internal, store_deleted)
   \<and> fst (checkout envA reqA store_deleted) \<noteq> Inl NotFound"
  using present_book_Internal(1)[OF book1_in_store_deleted]
    present_book_Internal(2)[OF book1_in_store_deleted, of reqA envA]
  by (simp add: reqA_def)

text \<open>
  C2. The claim: once the only active rental of a book has been returned, a further checkout
  of the same ISBN succeeds and inserts a second rental row. On the table as migrated user
  A's checkout of the book already answers 500 and inserts nothing; with A's returned
  rental in the table (\<open>store2\<close>) user B's checkout answers 500 as well; and the table
  refuses a second row for the ISBN even when the row is complete with its return date,
  by \<^verbatim>\<open>UNIQUE INDEX rental_log_book_isbn_key(book_isbn)\<close>.
\<close>

theorem no_second_rental_on_migrated_table:
  "checkout envA reqA store0 = (Inl Internal, store0)
   \<and> checkout envB reqB store2 = (Inl Internal, store2)
   \<and> rental_log_create rental2 store2 = None"
proof -
  have 1: "checkout envA reqA store0 = (Inl Internal, store0)"
    using present_book_Internal(2)[OF book1_in_store0, of reqA envA] by (simp add: reqA_def)
  have 2: "checkout envB reqB store2 = (Inl Internal, store2)"
    using present_book_Internal(2)[OF book1_in_store2, of reqB envB] by (simp add: reqB_def)
  have 3: "rental_log_create rental2 store2 = None"
    by (simp add: rental_log_create_def rental2_def store2_def rental1_def)
  from 1 2 3 show ?thesis by simp
qed


text \<open>The return of A's rental in \<open>store2\<close>, a day after the first return.\<close>

lemma return_A_store2:
  "returnBook 1764309764000 returnA store2 =
     (Inr \<lparr>rr_id = ''r1'', rr_returned_date = Some 1764309764000\<rparr>, store3)"
  by (simp add: returnBook_def returnA_def store2_def store3_def store0_def rental1_def
      rental_log_findUnique_def rental_log_update_returned_def)

text \<open>
  C5. The claim: after a successful return by the owner, the detail page of the book
  reports \<open>is_rental = False\<close>. User A's return of the rental in \<open>store2\<close> succeeds, no
  row of the book is an open rental afterwards, and the detail page of the book answers
  500: its query for an open rental is refused.
\<close>

theorem detail_after_return_answers_500:
  "returnBook 1764309764000 returnA store2 =
     (Inr \<lparr>rr_id = ''r1'', rr_returned_date = Some 1764309764000\<rparr>, store3)
   \<and> getBookDetail (Some 9780000000001) store3 = Inl Internal"
  using return_A_store2 present_book_Internal(1)[OF book1_in_store3] by simp

text \<open>
  C6. For a logged-in user u and a rental id: when no rental row has the id, the return
  answers NotFound; when the row exists and belongs to another user, it answers Forbidden;
  in both cases the store is returned unchanged.
\<close>

theorem returnBook_NotFound_Forbidden:
  assumes "rt_user req = Some u" and "rt_id req = Some rid"
  shows "(rental_log_findUnique rid d = None \<longrightarrow> returnBook now req d = (Inl NotFound, d))
       \<and> (\<forall>rental. rental_log_findUnique rid d = Some rental \<and> user_id rental \<noteq> u
             \<longrightarrow> returnBook now req d = (Inl Forbidden, d))"
  using assms by (simp add: returnBook_def)

text \<open>On the example: B asks to return an unknown rental, then A's rental.\<close>

theorem returnBook_NotFound_Forbidden_witness:
  "returnBook 1764309764000 \<lparr>rt_user = Some ''B'', rt_id = Some ''r9''\<rparr> store2
     = (Inl NotFound, store2)
   \<and> returnBook 1764309764000 \<lparr>rt_user = Some ''B'', rt_id = Some ''r1''\<rparr> store2
     = (Inl Forbidden, store2)"
proof -
  have n: "rental_log_findUnique ''r9'' store2 = None"
    by (simp add: rental_log_findUnique_def store2_def rental1_def)
  have f: "rental_log_findUnique ''r1'' store2
             = Some (rental1\<lparr>returned_date := Some 1764223364000\<rparr>)
           \<and> user_id (rental1\<lparr>returned_date := Some 1764223364000\<rparr>) \<noteq> ''B''"
    by (simp add: rental_log_findUnique_def store2_def rental1_def)
  from returnBook_NotFound_Forbidden
         [of "\<lparr>rt_user = Some ''B'', rt_id = Some ''r9''\<rparr>" "''B''" "''r9''" store2 1764309764000]
       n
  have 1: "returnBook 1764309764000 \<lparr>rt_user = Some ''B'', rt_id = Some ''r9''\<rparr> store2
             = (Inl NotFound, store2)"
    by simp
  from returnBook_NotFound_Forbidden
         [of "\<lparr>rt_user = Some ''B'', rt_id = Some ''r1''\<rparr>" "''B''" "''r1''" store2 1764309764000]
       f
  have 2: "returnBook 1764309764000 \<lparr>rt_user = Some ''B'', rt_id = Some ''r1''\<rparr> store2
             = (Inl Forbidden, store2)"
    by simp
  from 1 2 show ?thesis by simp
qed

text \<open>
  C7. For a rental row whose \<open>returned_date\<close> is already set, a return by the owning user
  succeeds (status 200, no Conflict), answers with the new timestamp, and the row's
  \<open>returned_date\<close> is overwritten with it; the other columns keep their values.
\<close>

theorem returnBook_twice_overwrites:
  assumes "rt_user req = Some u" and "rt_id req = Some rid"
    and "rental_log_findUnique rid d = Some rental"
    and "user_id rental = u"
    and "returned_date rental = Some t0"
  shows "\<exists>d'. returnBook now req d = (Inr \<lparr>rr_id = rid, rr_returned_date = Some now\<rparr>, d')
            \<and> rental_log_findUnique rid d' = Some (rental\<lparr>returned_date := Some now\<rparr>)"
proof -
  have "r_id rental = rid"
    using assms(3) by (rule rental_log_findUnique_id)
  then show ?thesis using assms
    by (simp add: returnBook_def rental_log_update_returned_def rental_log_findUnique_def
        find_update_by_id)
qed

text \<open>On the example: A returns the already returned rental once more, a day later.\<close>

theorem returnBook_twice_overwrites_witness:
  "\<exists>d'. returnBook 1764309764000 returnA store2 =
           (Inr \<lparr>rr_id = ''r1'', rr_returned_date = Some 1764309764000\<rparr>, d')
        \<and> rental_log_findUnique ''r1'' d' = Some (rental1\<lparr>returned_date := Some 1764309764000\<rparr>)"
proof -
  have row: "rental_log_findUnique ''r1'' store2
               = Some (rental1\<lparr>returned_date := Some 1764223364000\<rparr>)"
    by (simp add: rental_log_findUnique_def store2_def rental1_def)
  from returnBook_twice_overwrites
         [of returnA "''A''" "''r1''" store2
             "rental1\<lparr>returned_date := Some 1764223364000\<rparr>" 1764223364000 1764309764000]
       row
  show ?thesis by (simp add: returnA_def rental1_def)
qed

text \<open>A return rewrites \<open>returned_date\<close> alone: the other dates of every row stay.\<close>

lemma returnBook_keeps_dates:
  "returnBook now req d = (res, d') \<Longrightarrow>
     map checkout_date (rental_log_tbl d') = map checkout_date (rental_log_tbl d)
   \<and> map due_date (rental_log_tbl d') = map due_date (rental_log_tbl d)"
  by (auto simp add: returnBook_def rental_log_update_returned_def
      split: option.splits if_splits)


section \<open>Claims about the catalog service\<close>

lemma ceiling_per_page: "\<lceil>real n / 5\<rceil> = (int n + 4) div 5"
proof -
  have "\<lceil>real n / 5\<rceil> = - (- int n div 5)"
    using ceiling_divide_eq_div[of "int n" 5] by simp
  also have "\<dots> = (int n + 4) div 5" by presburger
  finally show ?thesis .
qed

lemma lastPage_of_nat: "lastPage_of n = (if n = 0 then 1 else (int n + 4) div 5)"
  by (auto simp add: lastPage_of_def ITEMS_PER_PAGE_def Let_def ceiling_per_page)

lemma lastPage_of_ceiling: "lastPage_of n = (if n = 0 then 1 else \<lceil>real n / 5\<rceil>)"
  by (simp add: lastPage_of_nat ceiling_per_page)

lemma lastPage_of_ge1: "1 \<le> lastPage_of n"
  by (simp add: lastPage_of_nat) presburger

text \<open>The two clamps of the handler leave a page number between 1 and the last page.\<close>

lemma clamp_page:
  "\<exists>n. (let currentPage = (case page of None \<Rightarrow> Finite 1 | Some n \<Rightarrow> n);
          currentPage = (if isNaN currentPage \<or> js_less currentPage 1 then Finite 1 else currentPage)
       in (if js_greater currentPage l then Finite l else currentPage)) = Finite n
      \<and> (1 \<le> l \<longrightarrow> 1 \<le> n \<and> n \<le> l)"
proof (cases page)
  case None
  then show ?thesis by (simp add: Let_def)
next
  case (Some p)
  then show ?thesis by (cases p) (auto simp add: Let_def)
qed

text \<open>
  C8. For every page argument and every store, the list handler answers (it never fails),
  with \<open>last_page = ceil(total / 5)\<close>, or 1 when no book is listed, and with
  \<open>1 \<le> current \<le> last_page\<close>. A request without a page, with an unparseable page or
  with a page below 1 gets the answer of page 1, and a page beyond the last page gets the
  answer of the last page.
\<close>

theorem handleListRequest_clamps_page:
  "(\<exists>n bs. handleListRequest page d =
        Inr \<lparr>current = Finite n, last_page = lastPage_of (book_count d), books = bs\<rparr>
      \<and> 1 \<le> n \<and> n \<le> lastPage_of (book_count d))
   \<and> lastPage_of (book_count d) =
       (if book_count d = 0 then 1 else \<lceil>real (book_count d) / 5\<rceil>)
   \<and> handleListRequest None d = handleListRequest (Some (Finite 1)) d
   \<and> (isNaN p \<or> js_less p 1 \<longrightarrow>
        handleListRequest (Some p) d = handleListRequest (Some (Finite 1)) d)
   \<and> (js_greater p (lastPage_of (book_count d)) \<longrightarrow>
        handleListRequest (Some p) d
          = handleListRequest (Some (Finite (lastPage_of (book_count d)))) d)"
proof -
  let ?l = "lastPage_of (book_count d)"
  have l1: "1 \<le> ?l" by (rule lastPage_of_ge1)
  from clamp_page[of page ?l] l1 obtain n where
    n: "(let currentPage = (case page of None \<Rightarrow> Finite 1 | Some n \<Rightarrow> n);
          currentPage = (if isNaN currentPage \<or> js_less currentPage 1 then Finite 1 else currentPage)
       in (if js_greater currentPage ?l then Finite ?l else currentPage)) = Finite n"
    and r: "1 \<le> n" "n \<le> ?l" by blast
  have 1: "\<exists>n bs. handleListRequest page d =
        Inr \<lparr>current = Finite n, last_page = ?l, books = bs\<rparr> \<and> 1 \<le> n \<and> n \<le> ?l"
    using n r by (simp add: handleListRequest_def Let_def book_findMany_page_def
        ITEMS_PER_PAGE_def)
  have 2: "?l = (if book_count d = 0 then 1 else \<lceil>real (book_count d) / 5\<rceil>)"
    by (rule lastPage_of_ceiling)
  have 3: "handleListRequest None d = handleListRequest (Some (Finite 1)) d"
    by (simp add: handleListRequest_def)
  have 4: "isNaN p \<or> js_less p 1 \<longrightarrow>
        handleListRequest (Some p) d = handleListRequest (Some (Finite 1)) d"
    by (cases p) (simp_all add: handleListRequest_def)
  have 5: "js_greater p ?l \<longrightarrow>
        handleListRequest (Some p) d = handleListRequest (Some (Finite ?l)) d"
    using l1 by (cases p) (simp_all add: handleListRequest_def Let_def)
  from 1 2 3 4 5 show ?thesis by blast
qed

text \<open>The twelve listed books of \<open>store12\<close>: three pages, the last one with two books.\<close>

lemma count12: "book_count store12 = 12"
  by (simp add: book_count_def store12_def sample_book_def book1_def)

lemma last12: "lastPage_of (book_count store12) = 3"
  by (simp add: count12 lastPage_of_nat)

lemma ordered12:
  "orderBy_year_month_desc (filter (\<lambda>b. \<not> b_isDeleted b) (book_tbl store12))
     = map sample_book [12, 11, 10, 9, 8, 7, 6, 5, 4, 3, 2, 1]"
  by (simp add: store12_def book1_def orderBy_year_month_desc_def sample_book_def
      listed_before_def)

lemma item12:
  "list_item_of store12 (sample_book k) =
     \<lparr>li_isbn = toString (9780000000000 + int k), li_title = ''Volume'',
      li_author_name = ''Soseki'', li_publication_year_month = year_month (2000 + k) 4\<rparr>"
  by (simp add: list_item_of_def sample_book_def author_findUnique_def store12_def store0_def)

lemma page3_of_12:
  "handleListRequest (Some (Finite 3)) store12 =
     Inr \<lparr>current = Finite 3, last_page = 3,
          books = [\<lparr>li_isbn = ''9780000000002'', li_title = ''Volume'',
                    li_author_name = ''Soseki'', li_publication_year_month = ''2002.4''\<rparr>,
                   \<lparr>li_isbn = ''9780000000001'', li_title = ''Volume'',
                    li_author_name = ''Soseki'', li_publication_year_month = ''2001.4''\<rparr>]\<rparr>"
  by (simp add: handleListRequest_def last12 book_findMany_page_def ITEMS_PER_PAGE_def ordered12
      item12 toString_def year_month_def digits10.simps digit_char_def)

lemma page1_of_12:
  "\<exists>bs. handleListRequest (Some (Finite 1)) store12 =
          Inr \<lparr>current = Finite 1, last_page = 3, books = bs\<rparr> \<and> length bs = 5"
  by (simp add: handleListRequest_def last12 book_findMany_page_def ITEMS_PER_PAGE_def ordered12)

text \<open>
  On \<open>store12\<close>: page 4 is answered with the two books of page 3, an unparseable page
  and page -2 with page 1, which has five books.
\<close>

theorem handleListRequest_clamps_page_witness:
  "handleListRequest (Some (Finite 4)) store12 =
     Inr \<lparr>current = Finite 3, last_page = 3,
          books = [\<lparr>li_isbn = ''9780000000002'', li_title = ''Volume'',
                    li_author_name = ''Soseki'', li_publication_year_month = ''2002.4''\<rparr>,
                   \<lparr>li_isbn = ''9780000000001'', li_title = ''Volume'',
                    li_author_name = ''Soseki'', li_publication_year_month = ''2001.4''\<rparr>]\<rparr>
   \<and> handleListRequest (Some NaN) store12 = handleListRequest (Some (Finite 1)) store12
   \<and> handleListRequest (Some (Finite (- 2))) store12 = handleListRequest (Some (Finite 1)) store12
   \<and> (\<exists>bs. handleListRequest (Some (Finite 1)) store12 =
          Inr \<lparr>current = Finite 1, last_page = 3, books = bs\<rparr> \<and> length bs = 5)"
proof -
  from handleListRequest_clamps_page[of None store12 "Finite 4"] last12
  have "handleListRequest (Some (Finite 4)) store12 = handleListRequest (Some (Finite 3)) store12"
    by simp
  moreover from handleListRequest_clamps_page[of None store12 NaN]
  have "handleListRequest (Some NaN) store12 = handleListRequest (Some (Finite 1)) store12"
    by simp
  moreover from handleListRequest_clamps_page[of None store12 "Finite (- 2)"]
  have "handleListRequest (Some (Finite (- 2))) store12
          = handleListRequest (Some (Finite 1)) store12"
    by simp
  ultimately show ?thesis using page3_of_12 page1_of_12 by simp
qed

lemma like_percent: "like [percent] s"
  by (induction s) (simp_all add: like.simps(2))

lemma like_percent_percent: "like [percent, percent] s"
  by (simp add: like.simps(2)[of percent "[percent]"] like_percent)

lemma name_contains_empty: "name_contains n ''''"
  by (simp add: name_contains_def like_percent_percent)

text \<open>
  C10, as the code has it. Called with a request body whose keyword is missing or empty,
  the author search returns the id and the name of exactly the authors whose soft-delete
  flag is false, and the publisher search does the same for publishers. A result row is a
  pair of id and name: no other column is returned.
\<close>

theorem search_empty_keyword_lists_all:
  "searchAuthors (Some None) d
     = Inr (map (\<lambda>a. (a_id a, a_name a)) (filter (\<lambda>a. \<not> a_isDeleted a) (author_tbl d)))
   \<and> searchAuthors (Some (Some '''')) d
     = Inr (map (\<lambda>a. (a_id a, a_name a)) (filter (\<lambda>a. \<not> a_isDeleted a) (author_tbl d)))
   \<and> searchPublishers (Some None) d
     = Inr (map (\<lambda>p. (p_id p, p_name p)) (filter (\<lambda>p. \<not> p_isDeleted p) (publisher_tbl d)))
   \<and> searchPublishers (Some (Some '''')) d
     = Inr (map (\<lambda>p. (p_id p, p_name p)) (filter (\<lambda>p. \<not> p_isDeleted p) (publisher_tbl d)))"
  by (simp add: searchAuthors_def searchPublishers_def or_empty_def author_findMany_search_def
      publisher_findMany_search_def name_contains_empty)

text \<open>On \<open>store_search\<close>: the soft-deleted author and publisher are not returned.\<close>

theorem search_empty_keyword_lists_all_witness:
  "searchAuthors (Some None) store_search = Inr [(''a1'', ''Soseki'')]
   \<and> searchAuthors (Some (Some '''')) store_search = Inr [(''a1'', ''Soseki'')]
   \<and> searchPublishers (Some None) store_search = Inr [(''p1'', ''Iwanami'')]
   \<and> searchPublishers (Some (Some '''')) store_search = Inr [(''p1'', ''Iwanami'')]"
  using search_empty_keyword_lists_all[of store_search]
  by (simp add: store_search_def store0_def)

text \<open>
  The claim as the specification words it, for every call with a missing keyword, fails
  for the call without a body: reading \<^verbatim>\<open>req.body.keyword\<close> throws and both searches
  answer 500.
\<close>

theorem search_without_body_answers_500:
  "searchAuthors None store_search = Inl Internal
   \<and> searchPublishers None store_search = Inl Internal"
  by (simp add: searchAuthors_def searchPublishers_def)

text \<open>
  A keyword that is not empty selects by substring, without regard to case, and its
  \<^verbatim>\<open>_\<close> stands for any one character.
\<close>

lemma search_keyword_example:
  "searchAuthors (Some (Some ''SEK'')) store0 = Inr [(''a1'', ''Soseki'')]
   \<and> searchAuthors (Some (Some ''Mori'')) store0 = Inr []
   \<and> searchAuthors (Some (Some ''s_s'')) store0 = Inr [(''a1'', ''Soseki'')]"
  by (simp add: searchAuthors_def or_empty_def author_findMany_search_def name_contains_def
      fold_case_def store0_def like.simps(2) percent_def underscore_def)

section \<open>Claims about the admin service\<close>

lemma requireAdmin_cases:
  "requireAdmin req d =
     (if \<exists>uid u. session_user req = Some uid \<and> uid \<noteq> '''' \<and> user_findUnique uid d = Some u
                  \<and> u_is_admin u
      then Next else refuse req)"
  by (auto simp add: requireAdmin_def Let_def split: option.splits)

text \<open>
  C3, as the code has it. For each of the twelve admin operations: a caller without a
  session identity, or whose user row is missing or has \<open>is_admin\<close> false, never reaches
  the operation; the store stays as it is, and the answer is 403 when the caller accepts
  JSON and not HTML and a redirect to \<^verbatim>\<open>/\<close> otherwise. A caller whose user row exists
  with \<open>is_admin\<close> true reaches the operation; the row's soft-delete flag is not read.
\<close>

theorem admin_route_requires_admin:
  "((session_user req = None \<or> session_user req = Some ''''
       \<or> (\<exists>uid. session_user req = Some uid \<and> user_findUnique uid d = None)
       \<or> (\<exists>uid u. session_user req = Some uid \<and> user_findUnique uid d = Some u
                   \<and> \<not> u_is_admin u))
     \<longrightarrow> admin_route fresh op req d =
           (if accepts_json (accept req) \<and> \<not> accepts_html (accept req) then Status 403
            else Redirect ''/'', d))
   \<and> ((\<exists>uid u. session_user req = Some uid \<and> uid \<noteq> '''' \<and> user_findUnique uid d = Some u
                 \<and> u_is_admin u)
     \<longrightarrow> admin_route fresh op req d = admin_handler fresh op req d)"
proof -
  have 1: "(session_user req = None \<or> session_user req = Some ''''
       \<or> (\<exists>uid. session_user req = Some uid \<and> user_findUnique uid d = None)
       \<or> (\<exists>uid u. session_user req = Some uid \<and> user_findUnique uid d = Some u
                   \<and> \<not> u_is_admin u))
     \<Longrightarrow> requireAdmin req d = refuse req"
    unfolding requireAdmin_cases by auto
  have 2: "(\<exists>uid u. session_user req = Some uid \<and> uid \<noteq> '''' \<and> user_findUnique uid d = Some u
                 \<and> u_is_admin u) \<Longrightarrow> requireAdmin req d = Next"
    unfolding requireAdmin_cases by simp
  show ?thesis
    using 1 2 by (auto simp add: admin_route_def refuse_def)
qed

text \<open>
  On \<open>store_admins\<close>: the delete of author a1 is refused with 403 for user A, who is no
  administrator, and carried out for the administrator Y.
\<close>

theorem admin_route_requires_admin_witness:
  "admin_route ''n1'' (AuthorDelete (Some ''a1'')) \<lparr>session_user = Some ''A'', accept = JsonOnly\<rparr>
     store_admins = (Status 403, store_admins)
   \<and> admin_route ''n1'' (AuthorDelete (Some ''a1'')) \<lparr>session_user = Some ''Y'', accept = JsonOnly\<rparr>
     store_admins = (Status 200, store_admins_a1_deleted)"
proof -
  have A: "\<exists>uid u. session_user \<lparr>session_user = Some ''A'', accept = JsonOnly\<rparr> = Some uid
             \<and> user_findUnique uid store_admins = Some u \<and> \<not> u_is_admin u"
    by (simp add: user_findUnique_def store_admins_def)
  have Y: "\<exists>uid u. session_user \<lparr>session_user = Some ''Y'', accept = JsonOnly\<rparr> = Some uid
             \<and> uid \<noteq> '''' \<and> user_findUnique uid store_admins = Some u \<and> u_is_admin u"
    by (simp add: user_findUnique_def store_admins_def)
  from admin_route_requires_admin
         [of "\<lparr>session_user = Some ''A'', accept = JsonOnly\<rparr>" store_admins "''n1''"
             "AuthorDelete (Some ''a1'')"] A
  have 1: "admin_route ''n1'' (AuthorDelete (Some ''a1''))
             \<lparr>session_user = Some ''A'', accept = JsonOnly\<rparr> store_admins
           = (Status 403, store_admins)"
    by simp
  from admin_route_requires_admin
         [of "\<lparr>session_user = Some ''Y'', accept = JsonOnly\<rparr>" store_admins "''n1''"
             "AuthorDelete (Some ''a1'')"] Y
  have "admin_route ''n1'' (AuthorDelete (Some ''a1''))
             \<lparr>session_user = Some ''Y'', accept = JsonOnly\<rparr> store_admins
           = admin_handler ''n1'' (AuthorDelete (Some ''a1''))
               \<lparr>session_user = Some ''Y'', accept = JsonOnly\<rparr> store_admins"
    by blast
  also have "\<dots> = (Status 200, store_admins_a1_deleted)"
    by (simp add: author_update_def store_admins_def store_admins_a1_deleted_def store0_def)
  finally show ?thesis using 1 by simp
qed

text \<open>
  The claim as the specification words it fails twice on \<open>store_admins\<close>: an anonymous
  browser is not answered with 403 but redirected to \<^verbatim>\<open>/\<close>, and the soft-deleted
  administrator Z passes \<open>requireAdmin\<close> and soft-deletes author a1.
\<close>

theorem requireAdmin_redirects_and_admits_deleted_admin:
  "admin_route ''n1'' (AuthorDelete (Some ''a1'')) \<lparr>session_user = None, accept = HtmlFirst\<rparr>
     store_admins = (Redirect ''/'', store_admins)
   \<and> admin_route ''n1'' (AuthorDelete (Some ''a1'')) \<lparr>session_user = Some ''Z'', accept = JsonOnly\<rparr>
     store_admins = (Status 200, store_admins_a1_deleted)"
  by (simp add: admin_route_def requireAdmin_def refuse_def user_findUnique_def store_admins_def
      store_admins_a1_deleted_def store0_def author_update_def)

end
